theory Spec2Isabelle
  imports Main "HOL-Library.Sublist"
begin

section \<open>The unified fireplace of intellifire4py\<close>

text \<open>
  A shallow embedding of \<^verbatim>\<open>src/intellifire4py/unified_fireplace.py\<close>: the class
  \<^verbatim>\<open>UnifiedFireplace\<close>, which owns one local and one cloud backend and routes reads and
  control commands to one of them.

  Mutation of \<^verbatim>\<open>self\<close> is explicit state passing. A method of the class is a function
  from the object before the call to a triple: what the call raised (if anything), the
  object after the call, and the backend calls the method made, in order. The object is
  returned also when the call raised, since Python keeps every mutation made before the
  \<^verbatim>\<open>raise\<close>.
\<close>

subsection \<open>Data\<close>

text \<open>\<^verbatim>\<open>intellifire4py.const.IntelliFireApiMode\<close>, an enumeration of two members.\<close>

datatype IntelliFireApiMode = LOCAL | CLOUD

text \<open>
  \<^verbatim>\<open>intellifire4py.model.IntelliFireCommonFireplaceData\<close>. The class is declared outside
  the file; the fields are those the file reads, writes or passes to its constructor
  (\<^verbatim>\<open>build_fireplace_direct\<close>). Field \<open>fd_x\<close> is the attribute \<^verbatim>\<open>x\<close>.
\<close>

record IntelliFireCommonFireplaceData =
  fd_ip_address :: string
  fd_api_key :: string
  fd_serial :: string
  fd_auth_cookie :: string
  fd_user_id :: string
  fd_web_client_id :: string
  fd_read_mode :: IntelliFireApiMode
  fd_control_mode :: IntelliFireApiMode

text \<open>\<^verbatim>\<open>intellifire4py.model.IntelliFireUserData\<close>: only \<^verbatim>\<open>fireplaces\<close> is read.\<close>

record IntelliFireUserData =
  fireplaces :: "IntelliFireCommonFireplaceData list"

text \<open>
  What a call can raise. \<^verbatim>\<open>set_read_mode\<close> handles \<^verbatim>\<open>except Exception\<close>, so the model
  keeps apart the instances of \<^verbatim>\<open>Exception\<close> and the other instances of
  \<^verbatim>\<open>BaseException\<close> (\<^verbatim>\<open>asyncio.CancelledError\<close>, \<^verbatim>\<open>KeyboardInterrupt\<close>,
  \<^verbatim>\<open>SystemExit\<close>), which that handler lets through.
\<close>

datatype raised = Exception string | NonException string

fun is_Exception :: "raised \<Rightarrow> bool" where
  "is_Exception (Exception msg) = True"
| "is_Exception (NonException msg) = False"

subsection \<open>The two backends\<close>

text \<open>
  \<^verbatim>\<open>IntelliFireAPILocal\<close> and \<^verbatim>\<open>IntelliFireAPICloud\<close> are imported by the file, not
  defined in it, so they are parameters of the model. A backend class over objects \<open>'b\<close>
  and poll data \<open>'d\<close> gives the attribute \<^verbatim>\<open>data\<close> and the three methods the file calls.
  A method returns what it raised (\<open>None\<close> when it returned) and the backend object
  after the call; \<open>'b\<close> is arbitrary, so it can hold whatever decides how the backend
  behaves.
\<close>

record ('b, 'd) api_class =
  data_of :: "'b \<Rightarrow> 'd"
  stop_background_polling :: "'b \<Rightarrow> raised option \<times> 'b"
  overwrite_data :: "'d \<Rightarrow> 'b \<Rightarrow> raised option \<times> 'b"
  start_background_polling :: "'b \<Rightarrow> raised option \<times> 'b"

text \<open>
  Everything the file imports: the two constructors (with the keyword arguments of
  \<^verbatim>\<open>__init__\<close> in the order \<^verbatim>\<open>fireplace_ip, user_id, api_key\<close> and
  \<^verbatim>\<open>serial, cookies\<close>), the property \<^verbatim>\<open>cookies\<close> of the common record, and the two
  backend classes.
\<close>

record ('l, 'c, 'd, 'k) collaborators =
  IntelliFireAPILocal :: "string \<Rightarrow> string \<Rightarrow> string \<Rightarrow> 'l"
  IntelliFireAPICloud :: "string \<Rightarrow> 'k \<Rightarrow> 'c"
  cookies :: "IntelliFireCommonFireplaceData \<Rightarrow> 'k"
  local_class :: "('l, 'd) api_class"
  cloud_class :: "('c, 'd) api_class"

text \<open>
  A call on a backend, as a mock backend would record it. The mode says which backend
  received the call.
\<close>

datatype 'd backend_call =
    StopBackgroundPolling IntelliFireApiMode
  | OverwriteData IntelliFireApiMode 'd
  | StartBackgroundPolling IntelliFireApiMode

subsection \<open>The class\<close>

text \<open>
  Field \<open>uf_x\<close> is the attribute \<^verbatim>\<open>self._x\<close>. The object holds its record by value:
  an assignment to \<^verbatim>\<open>self._fireplace_data.read_mode\<close> updates the record inside the
  object, and the reference the caller keeps to the same record is not modelled. The
  calls on \<^verbatim>\<open>self.log\<close> are left out; they are taken not to raise.
\<close>

record ('l, 'c) UnifiedFireplace =
  uf_control_mode :: IntelliFireApiMode
  uf_read_mode :: IntelliFireApiMode
  uf_fireplace_data :: IntelliFireCommonFireplaceData
  uf_local_api :: 'l
  uf_cloud_api :: 'c

text \<open>What \<^verbatim>\<open>read_api\<close> and \<^verbatim>\<open>control_api\<close> return: one of the two backend objects.\<close>

datatype ('l, 'c) api = LocalApi 'l | CloudApi 'c

type_synonym ('l, 'c, 'd) effect =
  "('l, 'c) UnifiedFireplace \<Rightarrow>
     raised option \<times> ('l, 'c) UnifiedFireplace \<times> 'd backend_call list"

text \<open>\<^verbatim>\<open>__init__\<close>: stores the modes and the record, builds both backends, calls nothing.\<close>

definition new_UnifiedFireplace ::
  "('l, 'c, 'd, 'k) collaborators \<Rightarrow> IntelliFireCommonFireplaceData \<Rightarrow>
     IntelliFireApiMode \<Rightarrow> IntelliFireApiMode \<Rightarrow> ('l, 'c) UnifiedFireplace" where
  "new_UnifiedFireplace env fireplace_data read_mode control_mode =
     \<lparr>uf_control_mode = control_mode,
      uf_read_mode = read_mode,
      uf_fireplace_data = fireplace_data,
      uf_local_api = IntelliFireAPILocal env (fd_ip_address fireplace_data)
                       (fd_user_id fireplace_data) (fd_api_key fireplace_data),
      uf_cloud_api = IntelliFireAPICloud env (fd_serial fireplace_data)
                       (cookies env fireplace_data)\<rparr>"

text \<open>The pass-through properties.\<close>

definition ip_address :: "('l, 'c) UnifiedFireplace \<Rightarrow> string" where
  "ip_address self = fd_ip_address (uf_fireplace_data self)"

definition api_key :: "('l, 'c) UnifiedFireplace \<Rightarrow> string" where
  "api_key self = fd_api_key (uf_fireplace_data self)"

definition serial :: "('l, 'c) UnifiedFireplace \<Rightarrow> string" where
  "serial self = fd_serial (uf_fireplace_data self)"

definition user_id :: "('l, 'c) UnifiedFireplace \<Rightarrow> string" where
  "user_id self = fd_user_id (uf_fireplace_data self)"

definition auth_cookie :: "('l, 'c) UnifiedFireplace \<Rightarrow> string" where
  "auth_cookie self = fd_auth_cookie (uf_fireplace_data self)"

definition web_client_id :: "('l, 'c) UnifiedFireplace \<Rightarrow> string" where
  "web_client_id self = fd_web_client_id (uf_fireplace_data self)"

definition read_api :: "('l, 'c) UnifiedFireplace \<Rightarrow> ('l, 'c) api" where
  "read_api self =
     (if uf_read_mode self = LOCAL then LocalApi (uf_local_api self)
      else CloudApi (uf_cloud_api self))"

definition control_api :: "('l, 'c) UnifiedFireplace \<Rightarrow> ('l, 'c) api" where
  "control_api self =
     (if uf_control_mode self = LOCAL then LocalApi (uf_local_api self)
      else CloudApi (uf_cloud_api self))"

definition read_mode :: "('l, 'c) UnifiedFireplace \<Rightarrow> IntelliFireApiMode" where
  "read_mode self = uf_read_mode self"

definition control_mode :: "('l, 'c) UnifiedFireplace \<Rightarrow> IntelliFireApiMode" where
  "control_mode self = uf_control_mode self"

definition cloud_data :: "('l, 'c, 'd, 'k) collaborators \<Rightarrow> ('l, 'c) UnifiedFireplace \<Rightarrow> 'd" where
  "cloud_data env self = data_of (cloud_class env) (uf_cloud_api self)"

definition local_data :: "('l, 'c, 'd, 'k) collaborators \<Rightarrow> ('l, 'c) UnifiedFireplace \<Rightarrow> 'd" where
  "local_data env self = data_of (local_class env) (uf_local_api self)"

definition data :: "('l, 'c, 'd, 'k) collaborators \<Rightarrow> ('l, 'c) UnifiedFireplace \<Rightarrow> 'd" where
  "data env self =
     (if read_mode self = LOCAL then local_data env self else cloud_data env self)"

text \<open>The attribute \<^verbatim>\<open>data\<close> of the object an accessor returned.\<close>

fun api_data :: "('l, 'c, 'd, 'k) collaborators \<Rightarrow> ('l, 'c) api \<Rightarrow> 'd" where
  "api_data env (LocalApi l) = data_of (local_class env) l"
| "api_data env (CloudApi c) = data_of (cloud_class env) c"

subsection \<open>Statements in sequence, calls on the backends\<close>

text \<open>
  \<open>then_do p q\<close> is \<^verbatim>\<open>p; q\<close>: when \<open>p\<close> raises, \<open>q\<close> does not run and the object is
  as \<open>p\<close> left it.
\<close>

definition then_do :: "('l, 'c, 'd) effect \<Rightarrow> ('l, 'c, 'd) effect \<Rightarrow> ('l, 'c, 'd) effect" where
  "then_do p q self =
     (case p self of
        (Some e, self1, calls1) \<Rightarrow> (Some e, self1, calls1)
      | (None, self1, calls1) \<Rightarrow>
          (case q self1 of (r, self2, calls2) \<Rightarrow> (r, self2, calls1 @ calls2)))"

text \<open>A method call on \<^verbatim>\<open>self._local_api\<close> and on \<^verbatim>\<open>self._cloud_api\<close>.\<close>

definition on_local_api ::
  "('l \<Rightarrow> raised option \<times> 'l) \<Rightarrow> 'd backend_call \<Rightarrow> ('l, 'c, 'd) effect" where
  "on_local_api m call self =
     (case m (uf_local_api self) of (r, l) \<Rightarrow> (r, self\<lparr>uf_local_api := l\<rparr>, [call]))"

definition on_cloud_api ::
  "('c \<Rightarrow> raised option \<times> 'c) \<Rightarrow> 'd backend_call \<Rightarrow> ('l, 'c, 'd) effect" where
  "on_cloud_api m call self =
     (case m (uf_cloud_api self) of (r, c) \<Rightarrow> (r, self\<lparr>uf_cloud_api := c\<rparr>, [call]))"

subsection \<open>Switching modes\<close>

text \<open>
  \<^verbatim>\<open>_switch_read_mode\<close>. The argument of \<^verbatim>\<open>overwrite_data\<close> is read from the other
  backend after its \<^verbatim>\<open>stop_background_polling\<close> has returned.
\<close>

definition switch_read_mode ::
  "('l, 'c, 'd, 'k) collaborators \<Rightarrow> IntelliFireApiMode \<Rightarrow> ('l, 'c, 'd) effect" where
  "switch_read_mode env mode =
     then_do
       (if mode = LOCAL then
          then_do (on_cloud_api (stop_background_polling (cloud_class env))
                     (StopBackgroundPolling CLOUD))
         (then_do (\<lambda>self. on_local_api (overwrite_data (local_class env) (cloud_data env self))
                     (OverwriteData LOCAL (cloud_data env self)) self)
                  (on_local_api (start_background_polling (local_class env))
                     (StartBackgroundPolling LOCAL)))
        else
          then_do (on_local_api (stop_background_polling (local_class env))
                     (StopBackgroundPolling LOCAL))
         (then_do (\<lambda>self. on_cloud_api (overwrite_data (cloud_class env) (local_data env self))
                     (OverwriteData CLOUD (local_data env self)) self)
                  (on_cloud_api (start_background_polling (cloud_class env))
                     (StartBackgroundPolling CLOUD))))
       (\<lambda>self. (None,
                 self\<lparr>uf_read_mode := mode,
                      uf_fireplace_data := (uf_fireplace_data self)\<lparr>fd_read_mode := mode\<rparr>\<rparr>,
                 []))"

text \<open>
  \<^verbatim>\<open>set_read_mode\<close>: returns at once when the mode is the current one; otherwise runs the
  switch inside \<^verbatim>\<open>try ... except Exception\<close>, which logs and drops what it catches.
\<close>

definition set_read_mode ::
  "('l, 'c, 'd, 'k) collaborators \<Rightarrow> IntelliFireApiMode \<Rightarrow> ('l, 'c, 'd) effect" where
  "set_read_mode env mode self =
     (if uf_read_mode self = mode then (None, self, [])
      else
        (case switch_read_mode env mode self of
           (None, self1, calls) \<Rightarrow> (None, self1, calls)
         | (Some e, self1, calls) \<Rightarrow>
             (if is_Exception e then (None, self1, calls) else (Some e, self1, calls))))"

text \<open>\<^verbatim>\<open>set_control_mode\<close>: two assignments.\<close>

definition set_control_mode :: "IntelliFireApiMode \<Rightarrow> ('l, 'c, 'd) effect" where
  "set_control_mode mode self =
     (None,
      self\<lparr>uf_control_mode := mode,
           uf_fireplace_data := (uf_fireplace_data self)\<lparr>fd_control_mode := mode\<rparr>\<rparr>,
      [])"

subsection \<open>Builders\<close>

text \<open>
  A builder returns the new object or what it raised, and the calls made on the
  backends of the object under construction. \<^verbatim>\<open>create_async_instance\<close> awaits
  \<^verbatim>\<open>_switch_read_mode\<close> outside any handler: what the switch raises, the builder raises,
  and the instance is dropped.
\<close>

type_synonym ('l, 'c, 'd) built =
  "(raised + ('l, 'c) UnifiedFireplace) \<times> 'd backend_call list"

definition create_async_instance ::
  "('l, 'c, 'd, 'k) collaborators \<Rightarrow> IntelliFireCommonFireplaceData \<Rightarrow>
     IntelliFireApiMode \<Rightarrow> IntelliFireApiMode \<Rightarrow> ('l, 'c, 'd) built" where
  "create_async_instance env fireplace_data rmode cmode =
     (let instance = new_UnifiedFireplace env fireplace_data rmode cmode in
      case switch_read_mode env (uf_read_mode instance) instance of
        (None, instance1, calls) \<Rightarrow> (Inr instance1, calls)
      | (Some e, instance1, calls) \<Rightarrow> (Inl e, calls))"

text \<open>The default value of both mode parameters is \<^verbatim>\<open>IntelliFireApiMode.LOCAL\<close>.\<close>

definition build_fireplace_from_common_data ::
  "('l, 'c, 'd, 'k) collaborators \<Rightarrow> IntelliFireCommonFireplaceData \<Rightarrow> ('l, 'c, 'd) built" where
  "build_fireplace_from_common_data env common_data =
     create_async_instance env common_data LOCAL LOCAL"

text \<open>
  \<^verbatim>\<open>asyncio.gather(*tasks)\<close>: the results in the order of the tasks, or the exception of
  a task that raised. The tasks of one batch run interleaved, each on an object and on
  backends of its own, so the model runs them one after the other and keeps the calls
  of each task apart; which of several exceptions reaches the caller depends on the
  interleaving, and the model takes the first in the order of the tasks.
\<close>

primrec all_results :: "(raised + 'a) list \<Rightarrow> raised + 'a list" where
  "all_results [] = Inr []"
| "all_results (r # rs) =
     (case r of
        Inl e \<Rightarrow> Inl e
      | Inr x \<Rightarrow> (case all_results rs of Inl e \<Rightarrow> Inl e | Inr xs \<Rightarrow> Inr (x # xs)))"

definition gather :: "((raised + 'a) \<times> 't) list \<Rightarrow> (raised + 'a list) \<times> 't list" where
  "gather tasks = (all_results (map fst tasks), map snd tasks)"

definition build_fireplaces_from_user_data ::
  "('l, 'c, 'd, 'k) collaborators \<Rightarrow> IntelliFireUserData \<Rightarrow>
     IntelliFireApiMode \<Rightarrow> IntelliFireApiMode \<Rightarrow>
     (raised + ('l, 'c) UnifiedFireplace list) \<times> 'd backend_call list list" where
  "build_fireplaces_from_user_data env user_data rmode cmode =
     (let tasks = map (\<lambda>fp. create_async_instance env fp rmode cmode) (fireplaces user_data)
      in gather tasks)"

definition build_fireplace_direct ::
  "('l, 'c, 'd, 'k) collaborators \<Rightarrow> string \<Rightarrow> string \<Rightarrow> string \<Rightarrow> string \<Rightarrow> string \<Rightarrow> string \<Rightarrow>
     IntelliFireApiMode \<Rightarrow> IntelliFireApiMode \<Rightarrow> ('l, 'c, 'd) built" where
  "build_fireplace_direct env ip key ser cookie user web rmode cmode =
     (let common_fireplace =
        \<lparr>fd_ip_address = ip, fd_api_key = key, fd_serial = ser, fd_auth_cookie = cookie,
         fd_user_id = user, fd_web_client_id = web,
         fd_read_mode = rmode, fd_control_mode = cmode\<rparr>
      in create_async_instance env common_fireplace LOCAL LOCAL)"

definition build_fireplace_from_common ::
  "('l, 'c, 'd, 'k) collaborators \<Rightarrow> IntelliFireCommonFireplaceData \<Rightarrow> ('l, 'c, 'd) built" where
  "build_fireplace_from_common env common_fireplace =
     create_async_instance env common_fireplace LOCAL LOCAL"

subsection \<open>Test doubles\<close>

text \<open>
  Concrete backends for the examples below: a backend object is its poll data and
  whether it is polling. \<open>mock_class stop_r over_r start_r\<close> is a class whose three
  methods raise what the three arguments say, and do their work when they raise nothing.
\<close>

record mock_api =
  snapshot :: string
  polling :: bool

definition mock_class ::
  "raised option \<Rightarrow> raised option \<Rightarrow> raised option \<Rightarrow> (mock_api, string) api_class" where
  "mock_class stop_r over_r start_r =
     \<lparr>data_of = snapshot,
      stop_background_polling = (\<lambda>b. (stop_r, if stop_r = None then b\<lparr>polling := False\<rparr> else b)),
      overwrite_data = (\<lambda>d b. (over_r, if over_r = None then b\<lparr>snapshot := d\<rparr> else b)),
      start_background_polling = (\<lambda>b. (start_r, if start_r = None then b\<lparr>polling := True\<rparr> else b))\<rparr>"

definition mock_env ::
  "(mock_api, string) api_class \<Rightarrow> (mock_api, string) api_class \<Rightarrow>
     (mock_api, mock_api, string, string) collaborators" where
  "mock_env lc cc =
     \<lparr>IntelliFireAPILocal = (\<lambda>ip user key. \<lparr>snapshot = ''local of '' @ ip, polling = False\<rparr>),
      IntelliFireAPICloud = (\<lambda>ser ck. \<lparr>snapshot = ''cloud of '' @ ser, polling = False\<rparr>),
      cookies = fd_auth_cookie,
      local_class = lc,
      cloud_class = cc\<rparr>"

definition good_env :: "(mock_api, mock_api, string, string) collaborators" where
  "good_env = mock_env (mock_class None None None) (mock_class None None None)"

definition fp1 :: IntelliFireCommonFireplaceData where
  "fp1 = \<lparr>fd_ip_address = ''10.0.0.5'', fd_api_key = ''abc'', fd_serial = ''SN1'',
          fd_auth_cookie = ''CK1'', fd_user_id = ''U1'', fd_web_client_id = ''W1'',
          fd_read_mode = LOCAL, fd_control_mode = LOCAL\<rparr>"

text \<open>
  Two more records, and a backend class for a device that is offline: its
  \<^verbatim>\<open>start_background_polling\<close> raises for the backend that holds the given data.
\<close>

definition fp2 :: IntelliFireCommonFireplaceData where
  "fp2 = \<lparr>fd_ip_address = ''10.0.0.6'', fd_api_key = ''def'', fd_serial = ''SN2'',
          fd_auth_cookie = ''CK1'', fd_user_id = ''U1'', fd_web_client_id = ''W1'',
          fd_read_mode = LOCAL, fd_control_mode = LOCAL\<rparr>"

definition fp3 :: IntelliFireCommonFireplaceData where
  "fp3 = \<lparr>fd_ip_address = ''10.0.0.7'', fd_api_key = ''ghi'', fd_serial = ''SN3'',
          fd_auth_cookie = ''CK1'', fd_user_id = ''U1'', fd_web_client_id = ''W1'',
          fd_read_mode = CLOUD, fd_control_mode = CLOUD\<rparr>"

definition offline_class :: "string \<Rightarrow> (mock_api, string) api_class" where
  "offline_class seed =
     (mock_class None None None)
       \<lparr>start_background_polling :=
          (\<lambda>b. if snapshot b = seed then (Some (Exception ''offline''), b)
                else (None, b\<lparr>polling := True\<rparr>))\<rparr>"

text \<open>
  Two objects for the examples: one reading from the cloud, one reading locally.
\<close>

definition reading_cloud :: "(mock_api, mock_api) UnifiedFireplace" where
  "reading_cloud =
     \<lparr>uf_control_mode = LOCAL, uf_read_mode = CLOUD,
      uf_fireplace_data = fp1\<lparr>fd_read_mode := CLOUD\<rparr>,
      uf_local_api = \<lparr>snapshot = ''stale'', polling = False\<rparr>,
      uf_cloud_api = \<lparr>snapshot = ''flame 3'', polling = True\<rparr>\<rparr>"

definition reading_local :: "(mock_api, mock_api) UnifiedFireplace" where
  "reading_local =
     \<lparr>uf_control_mode = LOCAL, uf_read_mode = LOCAL,
      uf_fireplace_data = fp1,
      uf_local_api = \<lparr>snapshot = ''flame 2'', polling = True\<rparr>,
      uf_cloud_api = \<lparr>snapshot = ''stale'', polling = False\<rparr>\<rparr>"

section \<open>Properties\<close>

subsection \<open>The switch, statement by statement\<close>

text \<open>
  \<^verbatim>\<open>_switch_read_mode\<close> unfolded for each of the two modes: the three backend calls in
  order, each deciding whether the next one runs, and the two assignments at the end.
\<close>

lemma switch_read_mode_LOCAL:
  "switch_read_mode env LOCAL self =
     (case stop_background_polling (cloud_class env) (uf_cloud_api self) of
        (Some e, c1) \<Rightarrow> (Some e, self\<lparr>uf_cloud_api := c1\<rparr>, [StopBackgroundPolling CLOUD])
      | (None, c1) \<Rightarrow>
          (case overwrite_data (local_class env) (data_of (cloud_class env) c1) (uf_local_api self) of
             (Some e, l1) \<Rightarrow>
               (Some e, self\<lparr>uf_cloud_api := c1, uf_local_api := l1\<rparr>,
                [StopBackgroundPolling CLOUD, OverwriteData LOCAL (data_of (cloud_class env) c1)])
           | (None, l1) \<Rightarrow>
               (case start_background_polling (local_class env) l1 of
                  (Some e, l2) \<Rightarrow>
                    (Some e, self\<lparr>uf_cloud_api := c1, uf_local_api := l2\<rparr>,
                     [StopBackgroundPolling CLOUD, OverwriteData LOCAL (data_of (cloud_class env) c1),
                      StartBackgroundPolling LOCAL])
                | (None, l2) \<Rightarrow>
                    (None,
                     self\<lparr>uf_cloud_api := c1, uf_local_api := l2, uf_read_mode := LOCAL,
                          uf_fireplace_data := (uf_fireplace_data self)\<lparr>fd_read_mode := LOCAL\<rparr>\<rparr>,
                     [StopBackgroundPolling CLOUD, OverwriteData LOCAL (data_of (cloud_class env) c1),
                      StartBackgroundPolling LOCAL]))))"
  by (simp add: switch_read_mode_def then_do_def on_cloud_api_def on_local_api_def
      cloud_data_def split: prod.splits option.splits)

lemma switch_read_mode_CLOUD:
  "switch_read_mode env CLOUD self =
     (case stop_background_polling (local_class env) (uf_local_api self) of
        (Some e, l1) \<Rightarrow> (Some e, self\<lparr>uf_local_api := l1\<rparr>, [StopBackgroundPolling LOCAL])
      | (None, l1) \<Rightarrow>
          (case overwrite_data (cloud_class env) (data_of (local_class env) l1) (uf_cloud_api self) of
             (Some e, c1) \<Rightarrow>
               (Some e, self\<lparr>uf_local_api := l1, uf_cloud_api := c1\<rparr>,
                [StopBackgroundPolling LOCAL, OverwriteData CLOUD (data_of (local_class env) l1)])
           | (None, c1) \<Rightarrow>
               (case start_background_polling (cloud_class env) c1 of
                  (Some e, c2) \<Rightarrow>
                    (Some e, self\<lparr>uf_local_api := l1, uf_cloud_api := c2\<rparr>,
                     [StopBackgroundPolling LOCAL, OverwriteData CLOUD (data_of (local_class env) l1),
                      StartBackgroundPolling CLOUD])
                | (None, c2) \<Rightarrow>
                    (None,
                     self\<lparr>uf_local_api := l1, uf_cloud_api := c2, uf_read_mode := CLOUD,
                          uf_fireplace_data := (uf_fireplace_data self)\<lparr>fd_read_mode := CLOUD\<rparr>\<rparr>,
                     [StopBackgroundPolling LOCAL, OverwriteData CLOUD (data_of (local_class env) l1),
                      StartBackgroundPolling CLOUD]))))"
  by (simp add: switch_read_mode_def then_do_def on_cloud_api_def on_local_api_def
      local_data_def split: prod.splits option.splits)

text \<open>
  What the switch leaves behind. When it returns, the read mode and the record's
  \<^verbatim>\<open>read_mode\<close> are the new mode, nothing else of the record and not the control mode
  has changed, and the three calls were made. When it raises, both modes and the record
  are untouched.
\<close>

lemma switch_read_mode_LOCAL_returns:
  assumes "switch_read_mode env LOCAL self = (None, s, cs)"
  shows "uf_read_mode s = LOCAL \<and> uf_control_mode s = uf_control_mode self \<and>
         uf_fireplace_data s = (uf_fireplace_data self)\<lparr>fd_read_mode := LOCAL\<rparr> \<and>
         (\<exists>d. cs = [StopBackgroundPolling CLOUD, OverwriteData LOCAL d,
                    StartBackgroundPolling LOCAL])"
proof -
  obtain r1 c1 where a: "stop_background_polling (cloud_class env) (uf_cloud_api self) = (r1, c1)"
    by (cases "stop_background_polling (cloud_class env) (uf_cloud_api self)") auto
  obtain r2 l1 where b:
    "overwrite_data (local_class env) (data_of (cloud_class env) c1) (uf_local_api self) = (r2, l1)"
    by (cases "overwrite_data (local_class env) (data_of (cloud_class env) c1) (uf_local_api self)") auto
  obtain r3 l2 where c: "start_background_polling (local_class env) l1 = (r3, l2)"
    by (cases "start_background_polling (local_class env) l1") auto
  from assms a b c show ?thesis
    by (cases r1; cases r2; cases r3) (auto simp: switch_read_mode_LOCAL)
qed

lemma switch_read_mode_CLOUD_returns:
  assumes "switch_read_mode env CLOUD self = (None, s, cs)"
  shows "uf_read_mode s = CLOUD \<and> uf_control_mode s = uf_control_mode self \<and>
         uf_fireplace_data s = (uf_fireplace_data self)\<lparr>fd_read_mode := CLOUD\<rparr> \<and>
         (\<exists>d. cs = [StopBackgroundPolling LOCAL, OverwriteData CLOUD d,
                    StartBackgroundPolling CLOUD])"
proof -
  obtain r1 l1 where a: "stop_background_polling (local_class env) (uf_local_api self) = (r1, l1)"
    by (cases "stop_background_polling (local_class env) (uf_local_api self)") auto
  obtain r2 c1 where b:
    "overwrite_data (cloud_class env) (data_of (local_class env) l1) (uf_cloud_api self) = (r2, c1)"
    by (cases "overwrite_data (cloud_class env) (data_of (local_class env) l1) (uf_cloud_api self)") auto
  obtain r3 c2 where c: "start_background_polling (cloud_class env) c1 = (r3, c2)"
    by (cases "start_background_polling (cloud_class env) c1") auto
  from assms a b c show ?thesis
    by (cases r1; cases r2; cases r3) (auto simp: switch_read_mode_CLOUD)
qed

lemma switch_read_mode_returns:
  assumes "switch_read_mode env mode self = (None, s, cs)"
  shows "uf_read_mode s = mode \<and> uf_control_mode s = uf_control_mode self \<and>
         uf_fireplace_data s = (uf_fireplace_data self)\<lparr>fd_read_mode := mode\<rparr> \<and>
         (\<exists>d. cs = [StopBackgroundPolling (if mode = LOCAL then CLOUD else LOCAL),
                    OverwriteData mode d, StartBackgroundPolling mode])"
proof (cases mode)
  case LOCAL
  with assms have "switch_read_mode env LOCAL self = (None, s, cs)" by simp
  from switch_read_mode_LOCAL_returns [OF this] LOCAL show ?thesis by simp
next
  case CLOUD
  with assms have "switch_read_mode env CLOUD self = (None, s, cs)" by simp
  from switch_read_mode_CLOUD_returns [OF this] CLOUD show ?thesis by simp
qed

lemma switch_read_mode_raises:
  assumes "switch_read_mode env mode self = (Some e, s, cs)"
  shows "uf_read_mode s = uf_read_mode self \<and> uf_control_mode s = uf_control_mode self \<and>
         uf_fireplace_data s = uf_fireplace_data self"
proof (cases mode)
  case LOCAL
  obtain r1 c1 where a: "stop_background_polling (cloud_class env) (uf_cloud_api self) = (r1, c1)"
    by (cases "stop_background_polling (cloud_class env) (uf_cloud_api self)") auto
  obtain r2 l1 where b:
    "overwrite_data (local_class env) (data_of (cloud_class env) c1) (uf_local_api self) = (r2, l1)"
    by (cases "overwrite_data (local_class env) (data_of (cloud_class env) c1) (uf_local_api self)") auto
  obtain r3 l2 where c: "start_background_polling (local_class env) l1 = (r3, l2)"
    by (cases "start_background_polling (local_class env) l1") auto
  from assms LOCAL a b c show ?thesis
    by (cases r1; cases r2; cases r3) (auto simp: switch_read_mode_LOCAL)
next
  case CLOUD
  obtain r1 l1 where a: "stop_background_polling (local_class env) (uf_local_api self) = (r1, l1)"
    by (cases "stop_background_polling (local_class env) (uf_local_api self)") auto
  obtain r2 c1 where b:
    "overwrite_data (cloud_class env) (data_of (local_class env) l1) (uf_cloud_api self) = (r2, c1)"
    by (cases "overwrite_data (cloud_class env) (data_of (local_class env) l1) (uf_cloud_api self)") auto
  obtain r3 c2 where c: "start_background_polling (cloud_class env) c1 = (r3, c2)"
    by (cases "start_background_polling (cloud_class env) c1") auto
  from assms CLOUD a b c show ?thesis
    by (cases r1; cases r2; cases r3) (auto simp: switch_read_mode_CLOUD)
qed

lemmas mock_defs =
  good_env_def mock_env_def mock_class_def reading_cloud_def reading_local_def fp1_def

subsection \<open>Read mode\<close>

text \<open>
  C1. With the read mode CLOUD, \<^verbatim>\<open>set_read_mode(LOCAL)\<close> whose three backend calls
  return makes exactly the calls: stop polling on the cloud backend, overwrite the local
  backend's data with the data the cloud backend holds after the stop, start polling on
  the local backend; it then sets \<^verbatim>\<open>_read_mode\<close> and the record's \<^verbatim>\<open>read_mode\<close> to LOCAL
  and changes nothing else. The same holds from LOCAL to CLOUD with the backends
  exchanged (first two conjuncts). Whatever the three calls do, the calls made are a
  prefix of that sequence, and when the read mode is the new one or the record has
  changed, all three calls were made and returned (last two conjuncts).
\<close>

theorem set_read_mode_handoff_order:
  "(uf_read_mode self = CLOUD \<and>
    stop_background_polling (cloud_class env) (uf_cloud_api self) = (None, c1) \<and>
    overwrite_data (local_class env) (data_of (cloud_class env) c1) (uf_local_api self) = (None, l1) \<and>
    start_background_polling (local_class env) l1 = (None, l2) \<longrightarrow>
      set_read_mode env LOCAL self =
        (None,
         self\<lparr>uf_cloud_api := c1, uf_local_api := l2, uf_read_mode := LOCAL,
              uf_fireplace_data := (uf_fireplace_data self)\<lparr>fd_read_mode := LOCAL\<rparr>\<rparr>,
         [StopBackgroundPolling CLOUD, OverwriteData LOCAL (data_of (cloud_class env) c1),
          StartBackgroundPolling LOCAL])) \<and>
   (uf_read_mode self = LOCAL \<and>
    stop_background_polling (local_class env) (uf_local_api self) = (None, l1') \<and>
    overwrite_data (cloud_class env) (data_of (local_class env) l1') (uf_cloud_api self) = (None, c1') \<and>
    start_background_polling (cloud_class env) c1' = (None, c2') \<longrightarrow>
      set_read_mode env CLOUD self =
        (None,
         self\<lparr>uf_local_api := l1', uf_cloud_api := c2', uf_read_mode := CLOUD,
              uf_fireplace_data := (uf_fireplace_data self)\<lparr>fd_read_mode := CLOUD\<rparr>\<rparr>,
         [StopBackgroundPolling LOCAL, OverwriteData CLOUD (data_of (local_class env) l1'),
          StartBackgroundPolling CLOUD])) \<and>
   (uf_read_mode self = CLOUD \<and>
    stop_background_polling (cloud_class env) (uf_cloud_api self) = (r1, c1) \<and>
    overwrite_data (local_class env) (data_of (cloud_class env) c1) (uf_local_api self) = (r2, l1) \<and>
    start_background_polling (local_class env) l1 = (r3, l2) \<and>
    set_read_mode env LOCAL self = (r, self', calls) \<longrightarrow>
      prefix calls
        [StopBackgroundPolling CLOUD, OverwriteData LOCAL (data_of (cloud_class env) c1),
         StartBackgroundPolling LOCAL] \<and>
      (uf_read_mode self' = LOCAL \<or> uf_fireplace_data self' \<noteq> uf_fireplace_data self \<longrightarrow>
         r1 = None \<and> r2 = None \<and> r3 = None \<and> length calls = 3)) \<and>
   (uf_read_mode self = LOCAL \<and>
    stop_background_polling (local_class env) (uf_local_api self) = (r1, l1') \<and>
    overwrite_data (cloud_class env) (data_of (local_class env) l1') (uf_cloud_api self) = (r2, c1') \<and>
    start_background_polling (cloud_class env) c1' = (r3, c2') \<and>
    set_read_mode env CLOUD self = (r, self', calls) \<longrightarrow>
      prefix calls
        [StopBackgroundPolling LOCAL, OverwriteData CLOUD (data_of (local_class env) l1'),
         StartBackgroundPolling CLOUD] \<and>
      (uf_read_mode self' = CLOUD \<or> uf_fireplace_data self' \<noteq> uf_fireplace_data self \<longrightarrow>
         r1 = None \<and> r2 = None \<and> r3 = None \<and> length calls = 3))"
proof -
  have to_local: "uf_read_mode self = CLOUD \<Longrightarrow>
      set_read_mode env LOCAL self =
        (case switch_read_mode env LOCAL self of
           (None, s, cs) \<Rightarrow> (None, s, cs)
         | (Some e, s, cs) \<Rightarrow> (if is_Exception e then (None, s, cs) else (Some e, s, cs)))"
    by (simp add: set_read_mode_def)
  have to_cloud: "uf_read_mode self = LOCAL \<Longrightarrow>
      set_read_mode env CLOUD self =
        (case switch_read_mode env CLOUD self of
           (None, s, cs) \<Rightarrow> (None, s, cs)
         | (Some e, s, cs) \<Rightarrow> (if is_Exception e then (None, s, cs) else (Some e, s, cs)))"
    by (simp add: set_read_mode_def)
  have returns_local: "uf_read_mode self = CLOUD \<and>
    stop_background_polling (cloud_class env) (uf_cloud_api self) = (None, c1) \<and>
    overwrite_data (local_class env) (data_of (cloud_class env) c1) (uf_local_api self) = (None, l1) \<and>
    start_background_polling (local_class env) l1 = (None, l2) \<longrightarrow>
      set_read_mode env LOCAL self =
        (None,
         self\<lparr>uf_cloud_api := c1, uf_local_api := l2, uf_read_mode := LOCAL,
              uf_fireplace_data := (uf_fireplace_data self)\<lparr>fd_read_mode := LOCAL\<rparr>\<rparr>,
         [StopBackgroundPolling CLOUD, OverwriteData LOCAL (data_of (cloud_class env) c1),
          StartBackgroundPolling LOCAL])"
    by (simp add: to_local switch_read_mode_LOCAL)
  have returns_cloud: "uf_read_mode self = LOCAL \<and>
    stop_background_polling (local_class env) (uf_local_api self) = (None, l1') \<and>
    overwrite_data (cloud_class env) (data_of (local_class env) l1') (uf_cloud_api self) = (None, c1') \<and>
    start_background_polling (cloud_class env) c1' = (None, c2') \<longrightarrow>
      set_read_mode env CLOUD self =
        (None,
         self\<lparr>uf_local_api := l1', uf_cloud_api := c2', uf_read_mode := CLOUD,
              uf_fireplace_data := (uf_fireplace_data self)\<lparr>fd_read_mode := CLOUD\<rparr>\<rparr>,
         [StopBackgroundPolling LOCAL, OverwriteData CLOUD (data_of (local_class env) l1'),
          StartBackgroundPolling CLOUD])"
    by (simp add: to_cloud switch_read_mode_CLOUD)
  have any_local: "uf_read_mode self = CLOUD \<and>
    stop_background_polling (cloud_class env) (uf_cloud_api self) = (r1, c1) \<and>
    overwrite_data (local_class env) (data_of (cloud_class env) c1) (uf_local_api self) = (r2, l1) \<and>
    start_background_polling (local_class env) l1 = (r3, l2) \<and>
    set_read_mode env LOCAL self = (r, self', calls) \<longrightarrow>
      prefix calls
        [StopBackgroundPolling CLOUD, OverwriteData LOCAL (data_of (cloud_class env) c1),
         StartBackgroundPolling LOCAL] \<and>
      (uf_read_mode self' = LOCAL \<or> uf_fireplace_data self' \<noteq> uf_fireplace_data self \<longrightarrow>
         r1 = None \<and> r2 = None \<and> r3 = None \<and> length calls = 3)"
    by (cases r1; cases r2; cases r3)
       (auto simp: to_local switch_read_mode_LOCAL split: if_splits)
  have any_cloud: "uf_read_mode self = LOCAL \<and>
    stop_background_polling (local_class env) (uf_local_api self) = (r1, l1') \<and>
    overwrite_data (cloud_class env) (data_of (local_class env) l1') (uf_cloud_api self) = (r2, c1') \<and>
    start_background_polling (cloud_class env) c1' = (r3, c2') \<and>
    set_read_mode env CLOUD self = (r, self', calls) \<longrightarrow>
      prefix calls
        [StopBackgroundPolling LOCAL, OverwriteData CLOUD (data_of (local_class env) l1'),
         StartBackgroundPolling CLOUD] \<and>
      (uf_read_mode self' = CLOUD \<or> uf_fireplace_data self' \<noteq> uf_fireplace_data self \<longrightarrow>
         r1 = None \<and> r2 = None \<and> r3 = None \<and> length calls = 3)"
    by (cases r1; cases r2; cases r3)
       (auto simp: to_cloud switch_read_mode_CLOUD split: if_splits)
  from returns_local returns_cloud any_local any_cloud show ?thesis
    by (intro conjI)
qed

theorem set_read_mode_handoff_order_witness:
  "uf_read_mode reading_cloud = CLOUD \<and>
   set_read_mode good_env LOCAL reading_cloud =
     (None,
      reading_cloud\<lparr>uf_cloud_api := \<lparr>snapshot = ''flame 3'', polling = False\<rparr>,
                    uf_local_api := \<lparr>snapshot = ''flame 3'', polling = True\<rparr>,
                    uf_read_mode := LOCAL,
                    uf_fireplace_data := (uf_fireplace_data reading_cloud)\<lparr>fd_read_mode := LOCAL\<rparr>\<rparr>,
      [StopBackgroundPolling CLOUD, OverwriteData LOCAL ''flame 3'', StartBackgroundPolling LOCAL]) \<and>
   uf_read_mode reading_local = LOCAL \<and>
   set_read_mode good_env CLOUD reading_local =
     (None,
      reading_local\<lparr>uf_local_api := \<lparr>snapshot = ''flame 2'', polling = False\<rparr>,
                    uf_cloud_api := \<lparr>snapshot = ''flame 2'', polling = True\<rparr>,
                    uf_read_mode := CLOUD,
                    uf_fireplace_data := (uf_fireplace_data reading_local)\<lparr>fd_read_mode := CLOUD\<rparr>\<rparr>,
      [StopBackgroundPolling LOCAL, OverwriteData CLOUD ''flame 2'', StartBackgroundPolling CLOUD])"
  using
    set_read_mode_handoff_order [where self = reading_cloud and env = good_env
      and ?c1.0 = "\<lparr>snapshot = ''flame 3'', polling = False\<rparr>"
      and ?l1.0 = "\<lparr>snapshot = ''flame 3'', polling = False\<rparr>"
      and ?l2.0 = "\<lparr>snapshot = ''flame 3'', polling = True\<rparr>"
      and ?l1' = "\<lparr>snapshot = ''flame 2'', polling = False\<rparr>"
      and ?c1' = "\<lparr>snapshot = ''flame 2'', polling = False\<rparr>"
      and ?c2' = "\<lparr>snapshot = ''flame 2'', polling = True\<rparr>"
      and ?r1.0 = None and ?r2.0 = None and ?r3.0 = None and r = None
      and self' = "reading_cloud\<lparr>uf_cloud_api := \<lparr>snapshot = ''flame 3'', polling = False\<rparr>,
                    uf_local_api := \<lparr>snapshot = ''flame 3'', polling = True\<rparr>,
                    uf_read_mode := LOCAL,
                    uf_fireplace_data := (uf_fireplace_data reading_cloud)\<lparr>fd_read_mode := LOCAL\<rparr>\<rparr>"
      and calls = "[StopBackgroundPolling CLOUD, OverwriteData LOCAL ''flame 3'',
                    StartBackgroundPolling LOCAL]"]
    set_read_mode_handoff_order [where self = reading_local and env = good_env
      and ?c1.0 = "\<lparr>snapshot = ''flame 3'', polling = False\<rparr>"
      and ?l1.0 = "\<lparr>snapshot = ''flame 3'', polling = False\<rparr>"
      and ?l2.0 = "\<lparr>snapshot = ''flame 3'', polling = True\<rparr>"
      and ?l1' = "\<lparr>snapshot = ''flame 2'', polling = False\<rparr>"
      and ?c1' = "\<lparr>snapshot = ''flame 2'', polling = False\<rparr>"
      and ?c2' = "\<lparr>snapshot = ''flame 2'', polling = True\<rparr>"
      and ?r1.0 = None and ?r2.0 = None and ?r3.0 = None and r = None
      and self' = "reading_local\<lparr>uf_local_api := \<lparr>snapshot = ''flame 2'', polling = False\<rparr>,
                    uf_cloud_api := \<lparr>snapshot = ''flame 2'', polling = True\<rparr>,
                    uf_read_mode := CLOUD,
                    uf_fireplace_data := (uf_fireplace_data reading_local)\<lparr>fd_read_mode := CLOUD\<rparr>\<rparr>"
      and calls = "[StopBackgroundPolling LOCAL, OverwriteData CLOUD ''flame 2'',
                    StartBackgroundPolling CLOUD]"]
  by (simp add: mock_defs)

text \<open>
  C4. When a backend call of the switch (stop, overwrite or start) raises an instance
  of \<^verbatim>\<open>Exception\<close>, \<^verbatim>\<open>set_read_mode\<close> returns normally, and \<^verbatim>\<open>_read_mode\<close> and the
  record's \<^verbatim>\<open>read_mode\<close> are what they were before the call; in both directions. The
  three disjuncts say which call raised: the calls after it are not made.
\<close>

theorem set_read_mode_swallows_backend_failure:
  "(uf_read_mode self = CLOUD \<and>
    stop_background_polling (cloud_class env) (uf_cloud_api self) = (r1, c1) \<and>
    overwrite_data (local_class env) (data_of (cloud_class env) c1) (uf_local_api self) = (r2, l1) \<and>
    start_background_polling (local_class env) l1 = (r3, l2) \<and>
    (r1 = Some (Exception msg) \<or>
     r1 = None \<and> r2 = Some (Exception msg) \<or>
     r1 = None \<and> r2 = None \<and> r3 = Some (Exception msg)) \<and>
    set_read_mode env LOCAL self = (r, self', calls) \<longrightarrow>
      r = None \<and> uf_read_mode self' = uf_read_mode self \<and>
      fd_read_mode (uf_fireplace_data self') = fd_read_mode (uf_fireplace_data self)) \<and>
   (uf_read_mode self = LOCAL \<and>
    stop_background_polling (local_class env) (uf_local_api self) = (r1, l1) \<and>
    overwrite_data (cloud_class env) (data_of (local_class env) l1) (uf_cloud_api self) = (r2, c1) \<and>
    start_background_polling (cloud_class env) c1 = (r3, c2) \<and>
    (r1 = Some (Exception msg) \<or>
     r1 = None \<and> r2 = Some (Exception msg) \<or>
     r1 = None \<and> r2 = None \<and> r3 = Some (Exception msg)) \<and>
    set_read_mode env CLOUD self = (r, self', calls) \<longrightarrow>
      r = None \<and> uf_read_mode self' = uf_read_mode self \<and>
      fd_read_mode (uf_fireplace_data self') = fd_read_mode (uf_fireplace_data self))"
proof (intro conjI impI)
  assume a: "uf_read_mode self = CLOUD \<and>
    stop_background_polling (cloud_class env) (uf_cloud_api self) = (r1, c1) \<and>
    overwrite_data (local_class env) (data_of (cloud_class env) c1) (uf_local_api self) = (r2, l1) \<and>
    start_background_polling (local_class env) l1 = (r3, l2) \<and>
    (r1 = Some (Exception msg) \<or>
     r1 = None \<and> r2 = Some (Exception msg) \<or>
     r1 = None \<and> r2 = None \<and> r3 = Some (Exception msg)) \<and>
    set_read_mode env LOCAL self = (r, self', calls)"
  then have "r = None \<and> uf_read_mode self' = uf_read_mode self \<and>
      fd_read_mode (uf_fireplace_data self') = fd_read_mode (uf_fireplace_data self)"
    by (auto simp: set_read_mode_def switch_read_mode_LOCAL)
  then show "r = None" "uf_read_mode self' = uf_read_mode self"
    "fd_read_mode (uf_fireplace_data self') = fd_read_mode (uf_fireplace_data self)"
    by simp_all
next
  assume a: "uf_read_mode self = LOCAL \<and>
    stop_background_polling (local_class env) (uf_local_api self) = (r1, l1) \<and>
    overwrite_data (cloud_class env) (data_of (local_class env) l1) (uf_cloud_api self) = (r2, c1) \<and>
    start_background_polling (cloud_class env) c1 = (r3, c2) \<and>
    (r1 = Some (Exception msg) \<or>
     r1 = None \<and> r2 = Some (Exception msg) \<or>
     r1 = None \<and> r2 = None \<and> r3 = Some (Exception msg)) \<and>
    set_read_mode env CLOUD self = (r, self', calls)"
  then have "r = None \<and> uf_read_mode self' = uf_read_mode self \<and>
      fd_read_mode (uf_fireplace_data self') = fd_read_mode (uf_fireplace_data self)"
    by (auto simp: set_read_mode_def switch_read_mode_CLOUD)
  then show "r = None" "uf_read_mode self' = uf_read_mode self"
    "fd_read_mode (uf_fireplace_data self') = fd_read_mode (uf_fireplace_data self)"
    by simp_all
qed

theorem set_read_mode_swallows_backend_failure_witness:
  "set_read_mode (mock_env (mock_class None None (Some (Exception ''unreachable'')))
                           (mock_class None None None)) LOCAL reading_cloud =
     (None,
      reading_cloud\<lparr>uf_cloud_api := \<lparr>snapshot = ''flame 3'', polling = False\<rparr>,
                    uf_local_api := \<lparr>snapshot = ''flame 3'', polling = False\<rparr>\<rparr>,
      [StopBackgroundPolling CLOUD, OverwriteData LOCAL ''flame 3'', StartBackgroundPolling LOCAL]) \<and>
   set_read_mode (mock_env (mock_class None None None)
                           (mock_class None (Some (Exception ''read only'')) None)) CLOUD reading_local =
     (None,
      reading_local\<lparr>uf_local_api := \<lparr>snapshot = ''flame 2'', polling = False\<rparr>\<rparr>,
      [StopBackgroundPolling LOCAL, OverwriteData CLOUD ''flame 2''])"
  using
    set_read_mode_swallows_backend_failure
      [where self = reading_cloud
         and env = "mock_env (mock_class None None (Some (Exception ''unreachable'')))
                             (mock_class None None None)"
         and ?r1.0 = None and ?c1.0 = "\<lparr>snapshot = ''flame 3'', polling = False\<rparr>"
         and ?r2.0 = None and ?l1.0 = "\<lparr>snapshot = ''flame 3'', polling = False\<rparr>"
         and ?r3.0 = "Some (Exception ''unreachable'')"
         and ?l2.0 = "\<lparr>snapshot = ''flame 3'', polling = False\<rparr>"
         and msg = "''unreachable''" and r = None
         and self' = "reading_cloud\<lparr>uf_cloud_api := \<lparr>snapshot = ''flame 3'', polling = False\<rparr>,
                    uf_local_api := \<lparr>snapshot = ''flame 3'', polling = False\<rparr>\<rparr>"
         and calls = "[StopBackgroundPolling CLOUD, OverwriteData LOCAL ''flame 3'',
                       StartBackgroundPolling LOCAL]"
         and ?c2.0 = "\<lparr>snapshot = ''flame 3'', polling = False\<rparr>"]
    set_read_mode_swallows_backend_failure
      [where self = reading_local
         and env = "mock_env (mock_class None None None)
                           (mock_class None (Some (Exception ''read only'')) None)"
         and ?r1.0 = None and ?l1.0 = "\<lparr>snapshot = ''flame 2'', polling = False\<rparr>"
         and ?r2.0 = "Some (Exception ''read only'')"
         and ?c1.0 = "\<lparr>snapshot = ''stale'', polling = False\<rparr>"
         and ?r3.0 = None
         and ?c2.0 = "\<lparr>snapshot = ''stale'', polling = True\<rparr>"
         and msg = "''read only''" and r = None
         and self' = "reading_local\<lparr>uf_local_api := \<lparr>snapshot = ''flame 2'', polling = False\<rparr>\<rparr>"
         and calls = "[StopBackgroundPolling LOCAL, OverwriteData CLOUD ''flame 2'']"
         and ?l2.0 = "\<lparr>snapshot = ''flame 3'', polling = False\<rparr>"]
  by (simp add: mock_defs set_read_mode_def switch_read_mode_LOCAL switch_read_mode_CLOUD)

text \<open>
  C5. Calling \<^verbatim>\<open>set_read_mode\<close> with the mode that is already the current read mode
  returns normally, makes no call on either backend, and leaves the whole object, the
  owned record included, as it was.
\<close>

theorem set_read_mode_same_mode_noop:
  "set_read_mode env (uf_read_mode self) self = (None, self, [])"
  by (simp add: set_read_mode_def)

subsection \<open>Control mode and routing\<close>

text \<open>
  C6. \<^verbatim>\<open>set_control_mode(m)\<close> raises nothing and makes no call on a backend. Afterwards
  \<^verbatim>\<open>_control_mode\<close> and the record's \<^verbatim>\<open>control_mode\<close> are \<open>m\<close>; putting the old values
  back into these two fields gives the object before the call, so no other field has
  changed; and \<^verbatim>\<open>control_api\<close> is the backend that \<open>m\<close> names.
\<close>

theorem set_control_mode_bookkeeping:
  "(case set_control_mode m self of
      (r, self', calls) \<Rightarrow>
        r = None \<and> calls = [] \<and>
        control_mode self' = m \<and> fd_control_mode (uf_fireplace_data self') = m \<and>
        self'\<lparr>uf_control_mode := uf_control_mode self,
              uf_fireplace_data :=
                (uf_fireplace_data self')\<lparr>fd_control_mode := fd_control_mode (uf_fireplace_data self)\<rparr>\<rparr>
          = self \<and>
        control_api self' =
          (case m of LOCAL \<Rightarrow> LocalApi (uf_local_api self) | CLOUD \<Rightarrow> CloudApi (uf_cloud_api self)))"
  by (cases m) (simp_all add: set_control_mode_def control_mode_def control_api_def)

text \<open>
  C7. With the read mode LOCAL, after \<^verbatim>\<open>set_control_mode(CLOUD)\<close> the property
  \<^verbatim>\<open>control_api\<close> is the cloud backend while \<^verbatim>\<open>read_api\<close> is the local backend and
  \<^verbatim>\<open>data\<close> is the data of the local backend. For every object, \<^verbatim>\<open>data\<close> is the data
  of the backend that \<^verbatim>\<open>read_api\<close> returns.
\<close>

theorem control_and_read_routing_independent:
  "(uf_read_mode self = LOCAL \<longrightarrow>
      (case set_control_mode CLOUD self of
         (r, self', calls) \<Rightarrow>
           control_api self' = CloudApi (uf_cloud_api self) \<and>
           read_api self' = LocalApi (uf_local_api self) \<and>
           data env self' = data_of (local_class env) (uf_local_api self))) \<and>
   data env f = api_data env (read_api f)"
  by (simp add: set_control_mode_def control_api_def read_api_def data_def read_mode_def
      local_data_def cloud_data_def)

theorem control_and_read_routing_independent_witness:
  "uf_read_mode reading_local = LOCAL \<and>
   control_api (fst (snd (set_control_mode CLOUD reading_local))) =
     CloudApi \<lparr>snapshot = ''stale'', polling = False\<rparr> \<and>
   read_api (fst (snd (set_control_mode CLOUD reading_local))) =
     LocalApi \<lparr>snapshot = ''flame 2'', polling = True\<rparr> \<and>
   data good_env (fst (snd (set_control_mode CLOUD reading_local))) = ''flame 2''"
  using control_and_read_routing_independent [of reading_local good_env reading_local]
  by (simp add: mock_defs set_control_mode_def control_api_def read_api_def data_def
      read_mode_def local_data_def)

subsection \<open>Builders\<close>

text \<open>
  \<^verbatim>\<open>asyncio.gather\<close> returns a list exactly when every task returned.
\<close>

lemma all_results_map_Inr: "all_results (map Inr xs) = Inr xs"
  by (induction xs) simp_all

lemma all_results_Inr_D: "all_results ts = Inr xs \<Longrightarrow> ts = map Inr xs"
proof (induction ts arbitrary: xs)
  case Nil
  then show ?case by simp
next
  case (Cons t ts)
  from Cons.prems obtain x ys where t: "t = Inr x" and r: "all_results ts = Inr ys"
    and xs: "xs = x # ys"
    by (auto split: sum.splits)
  from Cons.IH [OF r] t xs show ?case by simp
qed

lemma all_results_Inl: "all_results ts = Inl e \<Longrightarrow> Inl e \<in> set ts"
proof (induction ts)
  case Nil
  then show ?case by simp
next
  case (Cons t ts)
  then show ?case by (cases t; cases "all_results ts") simp_all
qed

lemma all_results_raises: "Inl e \<in> set ts \<Longrightarrow> \<exists>e'. all_results ts = Inl e'"
proof (induction ts)
  case Nil
  then show ?case by simp
next
  case (Cons t ts)
  then show ?case by (cases t; cases "all_results ts") auto
qed

text \<open>
  \<^verbatim>\<open>create_async_instance\<close> is the constructor followed by the switch into the
  requested read mode; an object it returns has the requested modes, the given record
  with \<^verbatim>\<open>read_mode\<close> set, and was activated by the three calls.
\<close>

lemma create_async_instance_cases:
  "create_async_instance env fp rmode cmode =
     (case switch_read_mode env rmode (new_UnifiedFireplace env fp rmode cmode) of
        (None, s, cs) \<Rightarrow> (Inr s, cs)
      | (Some e, s, cs) \<Rightarrow> (Inl e, cs))"
  by (simp add: create_async_instance_def new_UnifiedFireplace_def Let_def)

lemma create_async_instance_Inr:
  assumes "create_async_instance env fp rmode cmode = (Inr f, calls)"
  shows "uf_read_mode f = rmode \<and> uf_control_mode f = cmode \<and>
         uf_fireplace_data f = fp\<lparr>fd_read_mode := rmode\<rparr> \<and>
         (\<exists>d. calls = [StopBackgroundPolling (if rmode = LOCAL then CLOUD else LOCAL),
                       OverwriteData rmode d, StartBackgroundPolling rmode])"
proof -
  let ?inst = "new_UnifiedFireplace env fp rmode cmode"
  obtain r s cs where sw: "switch_read_mode env rmode ?inst = (r, s, cs)"
    by (cases "switch_read_mode env rmode ?inst") auto
  with assms have "r = None" "s = f" "cs = calls"
    by (auto simp: create_async_instance_cases split: option.splits)
  with sw have "switch_read_mode env rmode ?inst = (None, f, calls)" by simp
  from switch_read_mode_returns [OF this] show ?thesis
    by (simp add: new_UnifiedFireplace_def)
qed

text \<open>
  The part of the mirror invariant that does hold: a builder that returns leaves the
  record's \<^verbatim>\<open>read_mode\<close> equal to the read mode of the object; \<^verbatim>\<open>set_read_mode\<close> keeps
  each of the two mirrors if it held before; \<^verbatim>\<open>set_control_mode\<close> establishes the mirror of
  the control mode and keeps that of the read mode.
\<close>

lemma create_async_instance_mirrors_read_mode:
  assumes "create_async_instance env fp rmode cmode = (Inr f, calls)"
  shows "fd_read_mode (uf_fireplace_data f) = uf_read_mode f"
  using create_async_instance_Inr [OF assms] by simp

lemma set_read_mode_keeps_mirrors:
  assumes "set_read_mode env mode self = (r, s, cs)"
  shows "(fd_read_mode (uf_fireplace_data self) = uf_read_mode self \<longrightarrow>
            fd_read_mode (uf_fireplace_data s) = uf_read_mode s) \<and>
         (fd_control_mode (uf_fireplace_data self) = uf_control_mode self \<longrightarrow>
            fd_control_mode (uf_fireplace_data s) = uf_control_mode s)"
proof (cases "uf_read_mode self = mode")
  case True
  with assms show ?thesis by (simp add: set_read_mode_def)
next
  case False
  obtain r' s' cs' where sw: "switch_read_mode env mode self = (r', s', cs')"
    by (cases "switch_read_mode env mode self") auto
  with assms False have s: "s = s'"
    by (cases r') (auto simp: set_read_mode_def split: if_splits)
  show ?thesis
  proof (cases r')
    case None
    with sw switch_read_mode_returns [of env mode self s' cs'] s show ?thesis by simp
  next
    case (Some e)
    with sw switch_read_mode_raises [of env mode self e s' cs'] s show ?thesis by simp
  qed
qed

lemma set_control_mode_keeps_mirrors:
  assumes "set_control_mode mode self = (r, s, cs)"
  shows "fd_control_mode (uf_fireplace_data s) = uf_control_mode s \<and>
         (fd_read_mode (uf_fireplace_data self) = uf_read_mode self \<longrightarrow>
            fd_read_mode (uf_fireplace_data s) = uf_read_mode s)"
  using assms by (auto simp: set_control_mode_def)

text \<open>
  C2. The claim that after every builder the record's two mode fields equal the two
  modes of the object fails for the control mode: \<^verbatim>\<open>__init__\<close> stores the requested
  control mode in \<^verbatim>\<open>_control_mode\<close> only, and the activation in
  \<^verbatim>\<open>create_async_instance\<close> writes the read mode to the record, not the control mode.
  Built from a record whose \<^verbatim>\<open>control_mode\<close> is LOCAL with the control mode CLOUD, the
  object controls through the cloud and its record says LOCAL.
\<close>

theorem create_async_instance_control_mode_not_mirrored:
  "\<exists>f calls. create_async_instance good_env fp1 LOCAL CLOUD = (Inr f, calls) \<and>
     control_mode f = CLOUD \<and> fd_control_mode (uf_fireplace_data f) = LOCAL"
  by (simp add: create_async_instance_def new_UnifiedFireplace_def switch_read_mode_LOCAL
      control_mode_def mock_defs)

text \<open>
  C3. \<^verbatim>\<open>build_fireplace_direct\<close> puts the requested modes into the record and calls
  \<^verbatim>\<open>create_async_instance(common_fireplace)\<close> without them, so the object is built
  with the default modes. Asked for CLOUD and CLOUD, it returns an object whose read
  and control modes are LOCAL, activated on the local backend; the activation also
  resets the record's \<^verbatim>\<open>read_mode\<close> to LOCAL, while its \<^verbatim>\<open>control_mode\<close> stays CLOUD.
\<close>

theorem build_fireplace_direct_ignores_requested_modes:
  "\<exists>f. build_fireplace_direct good_env ''10.0.0.5'' ''abc'' ''SN1'' ''CK1'' ''U1'' ''W1'' CLOUD CLOUD =
          (Inr f, [StopBackgroundPolling CLOUD, OverwriteData LOCAL ''cloud of SN1'',
                   StartBackgroundPolling LOCAL]) \<and>
        read_mode f = LOCAL \<and> control_mode f = LOCAL \<and>
        fd_read_mode (uf_fireplace_data f) = LOCAL \<and> fd_control_mode (uf_fireplace_data f) = CLOUD"
  by (simp add: build_fireplace_direct_def create_async_instance_def new_UnifiedFireplace_def
      switch_read_mode_LOCAL control_mode_def read_mode_def mock_defs)

text \<open>
  C8. When each of the \<open>n\<close> constructions returns, \<^verbatim>\<open>build_fireplaces_from_user_data\<close>
  returns a list of \<open>n\<close> objects in the order of \<^verbatim>\<open>user_data.fireplaces\<close>. The \<open>i\<close>-th
  object is what \<^verbatim>\<open>create_async_instance\<close> builds from the \<open>i\<close>-th record with the
  requested modes: it holds that record (with \<^verbatim>\<open>read_mode\<close> set to the requested read
  mode by the activation), has the requested read and control modes, and its activation
  was stop on the other backend, overwrite and start on the requested read backend:
  polling was started exactly once, on the requested backend, and on no other.
\<close>

theorem build_fireplaces_from_user_data_one_per_record:
  assumes "\<forall>fp \<in> set (fireplaces user_data).
             \<exists>f calls. create_async_instance env fp rmode cmode = (Inr f, calls)"
  shows "\<exists>fs logs.
           build_fireplaces_from_user_data env user_data rmode cmode = (Inr fs, logs) \<and>
           length fs = length (fireplaces user_data) \<and>
           length logs = length (fireplaces user_data) \<and>
           (\<forall>i < length (fireplaces user_data).
              create_async_instance env (fireplaces user_data ! i) rmode cmode =
                (Inr (fs ! i), logs ! i) \<and>
              uf_fireplace_data (fs ! i) = (fireplaces user_data ! i)\<lparr>fd_read_mode := rmode\<rparr> \<and>
              read_mode (fs ! i) = rmode \<and> control_mode (fs ! i) = cmode \<and>
              (\<exists>d. logs ! i =
                 [StopBackgroundPolling (if rmode = LOCAL then CLOUD else LOCAL),
                  OverwriteData rmode d, StartBackgroundPolling rmode]) \<and>
              (\<forall>m. count_list (logs ! i) (StartBackgroundPolling m) = (if m = rmode then 1 else 0)))"
proof -
  let ?fps = "fireplaces user_data"
  let ?build = "\<lambda>fp. create_async_instance env fp rmode cmode"
  define fs where "fs = map (\<lambda>fp. projr (fst (?build fp))) ?fps"
  define logs where "logs = map (\<lambda>fp. snd (?build fp)) ?fps"
  have len: "length fs = length ?fps" "length logs = length ?fps"
    by (simp_all add: fs_def logs_def)
  have task: "?build (?fps ! i) = (Inr (fs ! i), logs ! i)" if "i < length ?fps" for i
  proof -
    from that have "?fps ! i \<in> set ?fps" by simp
    with assms obtain f calls where built: "?build (?fps ! i) = (Inr f, calls)" by blast
    from that have "fs ! i = projr (fst (?build (?fps ! i)))"
      and "logs ! i = snd (?build (?fps ! i))"
      by (simp_all add: fs_def logs_def)
    with built show ?thesis by simp
  qed
  have "map fst (map ?build ?fps) = map Inr fs"
  proof (rule nth_equalityI)
    show "length (map fst (map ?build ?fps)) = length (map Inr fs)"
      using len by simp
  next
    fix i assume "i < length (map fst (map ?build ?fps))"
    then have i: "i < length ?fps" by simp
    from task [OF i] have "fst (?build (?fps ! i)) = Inr (fs ! i)" by simp
    with i len show "map fst (map ?build ?fps) ! i = map Inr fs ! i" by simp
  qed
  then have "all_results (map fst (map ?build ?fps)) = Inr fs"
    by (simp only: all_results_map_Inr)
  moreover have "map snd (map ?build ?fps) = logs"
    by (simp add: logs_def)
  ultimately have res:
    "build_fireplaces_from_user_data env user_data rmode cmode = (Inr fs, logs)"
    by (simp add: build_fireplaces_from_user_data_def gather_def)
  have each: "?build (?fps ! i) = (Inr (fs ! i), logs ! i) \<and>
              uf_fireplace_data (fs ! i) = (?fps ! i)\<lparr>fd_read_mode := rmode\<rparr> \<and>
              read_mode (fs ! i) = rmode \<and> control_mode (fs ! i) = cmode \<and>
              (\<exists>d. logs ! i =
                 [StopBackgroundPolling (if rmode = LOCAL then CLOUD else LOCAL),
                  OverwriteData rmode d, StartBackgroundPolling rmode]) \<and>
              (\<forall>m. count_list (logs ! i) (StartBackgroundPolling m) = (if m = rmode then 1 else 0))"
    if i: "i < length ?fps" for i
  proof -
    note c = task [OF i]
    note p = create_async_instance_Inr [OF c]
    from p have rm: "uf_read_mode (fs ! i) = rmode" by (rule conjunct1)
    from p have cm: "uf_control_mode (fs ! i) = cmode"
      by (rule conjunct2 [THEN conjunct1])
    from p have fd: "uf_fireplace_data (fs ! i) = (?fps ! i)\<lparr>fd_read_mode := rmode\<rparr>"
      by (rule conjunct2 [THEN conjunct2, THEN conjunct1])
    from p have ex: "\<exists>d. logs ! i =
          [StopBackgroundPolling (if rmode = LOCAL then CLOUD else LOCAL),
           OverwriteData rmode d, StartBackgroundPolling rmode]"
      by (rule conjunct2 [THEN conjunct2, THEN conjunct2])
    then obtain d where log: "logs ! i =
          [StopBackgroundPolling (if rmode = LOCAL then CLOUD else LOCAL),
           OverwriteData rmode d, StartBackgroundPolling rmode]" ..
    have cnt: "\<forall>m. count_list (logs ! i) (StartBackgroundPolling m) = (if m = rmode then 1 else 0)"
      unfolding log by simp
    from c fd rm cm ex cnt show ?thesis
      unfolding read_mode_def control_mode_def by (intro conjI)
  qed
  have all: "\<forall>i < length ?fps.
              ?build (?fps ! i) = (Inr (fs ! i), logs ! i) \<and>
              uf_fireplace_data (fs ! i) = (?fps ! i)\<lparr>fd_read_mode := rmode\<rparr> \<and>
              read_mode (fs ! i) = rmode \<and> control_mode (fs ! i) = cmode \<and>
              (\<exists>d. logs ! i =
                 [StopBackgroundPolling (if rmode = LOCAL then CLOUD else LOCAL),
                  OverwriteData rmode d, StartBackgroundPolling rmode]) \<and>
              (\<forall>m. count_list (logs ! i) (StartBackgroundPolling m) = (if m = rmode then 1 else 0))"
    by (intro allI impI) (rule each)
  show ?thesis
    apply (rule exI [of _ fs])
    apply (rule exI [of _ logs])
    using res len all by (intro conjI)
qed

theorem build_fireplaces_from_user_data_one_per_record_witness:
  "\<exists>fs logs.
     build_fireplaces_from_user_data good_env \<lparr>fireplaces = [fp1, fp2, fp3]\<rparr> CLOUD LOCAL =
       (Inr fs, logs) \<and>
     length fs = 3 \<and> length logs = 3 \<and>
     uf_fireplace_data (fs ! 0) = fp1\<lparr>fd_read_mode := CLOUD\<rparr> \<and>
     uf_fireplace_data (fs ! 1) = fp2\<lparr>fd_read_mode := CLOUD\<rparr> \<and>
     uf_fireplace_data (fs ! 2) = fp3\<lparr>fd_read_mode := CLOUD\<rparr> \<and>
     read_mode (fs ! 2) = CLOUD \<and> control_mode (fs ! 2) = LOCAL \<and>
     count_list (logs ! 2) (StartBackgroundPolling CLOUD) = 1 \<and>
     count_list (logs ! 2) (StartBackgroundPolling LOCAL) = 0"
proof -
  let ?user = "\<lparr>fireplaces = [fp1, fp2, fp3]\<rparr>"
  have built: "\<forall>fp \<in> set (fireplaces ?user).
      \<exists>f calls. create_async_instance good_env fp CLOUD LOCAL = (Inr f, calls)"
    by (simp add: create_async_instance_cases switch_read_mode_CLOUD new_UnifiedFireplace_def
        good_env_def mock_env_def mock_class_def)
  from build_fireplaces_from_user_data_one_per_record [OF built]
  obtain fs logs where
    res: "build_fireplaces_from_user_data good_env ?user CLOUD LOCAL = (Inr fs, logs)"
    and len: "length fs = length (fireplaces ?user)" "length logs = length (fireplaces ?user)"
    and each: "\<forall>i < length (fireplaces ?user).
      create_async_instance good_env (fireplaces ?user ! i) CLOUD LOCAL = (Inr (fs ! i), logs ! i) \<and>
      uf_fireplace_data (fs ! i) = (fireplaces ?user ! i)\<lparr>fd_read_mode := CLOUD\<rparr> \<and>
      read_mode (fs ! i) = CLOUD \<and> control_mode (fs ! i) = LOCAL \<and>
      (\<exists>d. logs ! i =
         [StopBackgroundPolling (if CLOUD = LOCAL then CLOUD else LOCAL),
          OverwriteData CLOUD d, StartBackgroundPolling CLOUD]) \<and>
      (\<forall>m. count_list (logs ! i) (StartBackgroundPolling m) = (if m = CLOUD then 1 else 0))"
    by blast
  from each have e0: "uf_fireplace_data (fs ! 0) = fp1\<lparr>fd_read_mode := CLOUD\<rparr>"
    by (simp add: nth_Cons')
  from each have e1: "uf_fireplace_data (fs ! 1) = fp2\<lparr>fd_read_mode := CLOUD\<rparr>"
    by (simp add: nth_Cons')
  from each have e2: "uf_fireplace_data (fs ! 2) = fp3\<lparr>fd_read_mode := CLOUD\<rparr> \<and>
      read_mode (fs ! 2) = CLOUD \<and> control_mode (fs ! 2) = LOCAL \<and>
      count_list (logs ! 2) (StartBackgroundPolling CLOUD) = 1 \<and>
      count_list (logs ! 2) (StartBackgroundPolling LOCAL) = 0"
    by (simp add: nth_Cons')
  from res len e0 e1 e2 show ?thesis by simp
qed

text \<open>
  C9. \<^verbatim>\<open>create_async_instance\<close> awaits the switch outside any handler: whatever the
  activation of one record raises (an \<^verbatim>\<open>Exception\<close> included), the construction raises.
  Then \<^verbatim>\<open>build_fireplaces_from_user_data\<close> raises too: its result is the exception of a
  construction that failed, never a list.
\<close>

theorem build_fireplaces_from_user_data_failure_propagates:
  assumes "fp \<in> set (fireplaces user_data)"
    and "switch_read_mode env rmode (new_UnifiedFireplace env fp rmode cmode) = (Some e, inst, calls)"
  shows "create_async_instance env fp rmode cmode = (Inl e, calls) \<and>
         (\<exists>e'. fst (build_fireplaces_from_user_data env user_data rmode cmode) = Inl e' \<and>
               (\<exists>fp' \<in> set (fireplaces user_data).
                  fst (create_async_instance env fp' rmode cmode) = Inl e'))"
proof -
  let ?tasks = "map (\<lambda>fp. create_async_instance env fp rmode cmode) (fireplaces user_data)"
  from assms(2) have c: "create_async_instance env fp rmode cmode = (Inl e, calls)"
    by (simp add: create_async_instance_cases)
  with assms(1) have "Inl e \<in> set (map fst ?tasks)" by force
  then obtain e' where e': "all_results (map fst ?tasks) = Inl e'"
    using all_results_raises by blast
  then have "Inl e' \<in> set (map fst ?tasks)" by (rule all_results_Inl)
  then have "\<exists>fp' \<in> set (fireplaces user_data).
               fst (create_async_instance env fp' rmode cmode) = Inl e'"
    by auto
  with c e' show ?thesis
    by (simp add: build_fireplaces_from_user_data_def gather_def)
qed

theorem build_fireplaces_from_user_data_failure_propagates_witness:
  "create_async_instance (mock_env (mock_class None None None) (offline_class ''local of 10.0.0.6''))
     fp2 CLOUD LOCAL =
     (Inl (Exception ''offline''),
      [StopBackgroundPolling LOCAL, OverwriteData CLOUD ''local of 10.0.0.6'',
       StartBackgroundPolling CLOUD]) \<and>
   (\<exists>e'. fst (build_fireplaces_from_user_data
               (mock_env (mock_class None None None) (offline_class ''local of 10.0.0.6''))
               \<lparr>fireplaces = [fp1, fp2, fp3]\<rparr> CLOUD LOCAL) = Inl e')"
proof -
  let ?env = "mock_env (mock_class None None None) (offline_class ''local of 10.0.0.6'')"
  let ?user = "\<lparr>fireplaces = [fp1, fp2, fp3]\<rparr>"
  have member: "fp2 \<in> set (fireplaces ?user)" by simp
  have raises: "switch_read_mode ?env CLOUD (new_UnifiedFireplace ?env fp2 CLOUD LOCAL) =
      (Some (Exception ''offline''),
       (new_UnifiedFireplace ?env fp2 CLOUD LOCAL)
         \<lparr>uf_local_api := \<lparr>snapshot = ''local of 10.0.0.6'', polling = False\<rparr>,
          uf_cloud_api := \<lparr>snapshot = ''local of 10.0.0.6'', polling = False\<rparr>\<rparr>,
       [StopBackgroundPolling LOCAL, OverwriteData CLOUD ''local of 10.0.0.6'',
        StartBackgroundPolling CLOUD])"
    by (simp add: switch_read_mode_CLOUD new_UnifiedFireplace_def mock_env_def mock_class_def
        offline_class_def fp2_def)
  from build_fireplaces_from_user_data_failure_propagates [OF member raises]
  show ?thesis by blast
qed

text \<open>
  C10. For a user record with no fireplaces, \<^verbatim>\<open>build_fireplaces_from_user_data\<close>
  returns the empty list: there is no task, so no object is built and no backend is
  called.
\<close>

theorem build_fireplaces_from_user_data_empty:
  "build_fireplaces_from_user_data env (user_data\<lparr>fireplaces := []\<rparr>) rmode cmode = (Inr [], [])"
  by (simp add: build_fireplaces_from_user_data_def gather_def)

end
